theory Spec2Isabelle
  imports Complex_Main
begin

section \<open>Telemetry events and the event store\<close>

text \<open>
  The telemetry layer of the CLI: the specialised client of the \<open>list\<close> command
  (\<open>ListTelemetryClient\<close>), the event store it writes to, the test double
  \<open>MockClient\<close>, and the command handlers \<open>pull\<close>, \<open>init\<close>, \<open>target\<close> and
  \<open>dns rm\<close> that call such clients.

  A TypeScript method that mutates the shared event store is a function from the store to
  the outcome of the call: \<open>Inl\<close> an exception that escapes the method, \<open>Inr\<close> the store
  after the call. An optional parameter \<open>x?: T\<close> is a \<open>T option\<close>, \<open>None\<close> being
  \<open>undefined\<close>.
\<close>

datatype kind = Option | Flag | Argument | Subcommand

text \<open>
  Modelled from the spec: the base class \<open>TelemetryClient\<close> and \<open>TelemetryEventStore\<close>
  (module \<open>util/telemetry\<close>) are imported by the sources but are not among them. An event
  is \<open>{ kind, key, value }\<close>; a flag event is given no value by the spec.
\<close>

record TelemetryEvent =
  ev_kind :: kind
  ev_key :: string
  ev_value :: "string option"

type_synonym TelemetryEventStore = "TelemetryEvent list"

text \<open>
  Modelled from the spec: the redaction placeholder, \<open>this.redactedValue\<close> of the missing
  base class: one fixed, globally shared string constant, the literal marker of the spec.
\<close>

definition redactedValue :: string where
  "redactedValue = ''[REDACTED]''"

text \<open>
  Modelled from the spec: \<open>record(event)\<close> of the missing event store appends one event,
  with no deduplication and no change of order, and cannot fail.
\<close>

definition store_record :: "TelemetryEvent \<Rightarrow> TelemetryEventStore \<Rightarrow> TelemetryEventStore" where
  "store_record e store = store @ [e]"

text \<open>
  Modelled from the spec: \<open>reset()\<close> of the missing event store clears all recorded events.
\<close>

definition store_reset :: "TelemetryEventStore \<Rightarrow> TelemetryEventStore" where
  "store_reset store = []"

text \<open>
  Modelled from the spec: the generic primitives of the missing base class. Each builds one
  event of its kind from its arguments and hands it to \<open>record\<close>; none throws.
\<close>

definition trackCliOption :: "string \<Rightarrow> string \<Rightarrow> TelemetryEventStore \<Rightarrow> TelemetryEventStore" where
  "trackCliOption opt v store =
     store_record \<lparr>ev_kind = Option, ev_key = opt, ev_value = Some v\<rparr> store"

definition trackCliFlag :: "string \<Rightarrow> TelemetryEventStore \<Rightarrow> TelemetryEventStore" where
  "trackCliFlag name store =
     store_record \<lparr>ev_kind = Flag, ev_key = name, ev_value = None\<rparr> store"

definition trackCliArgument :: "string \<Rightarrow> string \<Rightarrow> TelemetryEventStore \<Rightarrow> TelemetryEventStore" where
  "trackCliArgument arg v store =
     store_record \<lparr>ev_kind = Argument, ev_key = arg, ev_value = Some v\<rparr> store"

section \<open>JavaScript values of the trackers' parameter types\<close>

datatype error = TypeError | Error string

text \<open>
  A JavaScript number: not-a-number, the two infinities, or a finite value (the finite
  doubles are among the reals; \<open>+0\<close> and \<open>-0\<close> are both the real zero).
\<close>

datatype number = NaN | PosInfinity | NegInfinity | Finite real

text \<open>
  Truthiness, as \<open>if (x)\<close> and \<open>x && ...\<close> decide it: \<open>undefined\<close> is falsy; an array is
  truthy, also when empty; a string is falsy exactly when empty; a number is falsy exactly
  when it is zero or not-a-number; a boolean is itself.
\<close>

fun truthy_array :: "string list option \<Rightarrow> bool" where
  "truthy_array None = False"
| "truthy_array (Some xs) = True"

fun truthy_string :: "string option \<Rightarrow> bool" where
  "truthy_string None = False"
| "truthy_string (Some s) = (s \<noteq> [])"

fun truthy_number :: "number option \<Rightarrow> bool" where
  "truthy_number None = False"
| "truthy_number (Some NaN) = False"
| "truthy_number (Some PosInfinity) = True"
| "truthy_number (Some NegInfinity) = True"
| "truthy_number (Some (Finite x)) = (x \<noteq> 0)"

fun truthy_boolean :: "bool option \<Rightarrow> bool" where
  "truthy_boolean None = False"
| "truthy_boolean (Some b) = b"

text \<open>
  Reading the property \<open>length\<close>: of \<open>undefined\<close> it throws a \<open>TypeError\<close>, of an array
  it is the number of elements.
\<close>

fun array_length :: "string list option \<Rightarrow> error + nat" where
  "array_length None = Inl TypeError"
| "array_length (Some xs) = Inr (length xs)"

section \<open>The specialised client of the list command\<close>

text \<open>
  \<open>ListTelemetryClient\<close>, method by method. \<open>a && b\<close> evaluates \<open>b\<close> only when \<open>a\<close> is
  truthy, so \<open>meta.length\<close> is read only under the guard. In
  \<open>trackCliOptionEnvironment\<close> the parameter is reassigned under the guard, where it is
  a string: \<open>env\<close> is its value on entry, \<open>env'\<close> its value at the call.
\<close>

definition trackCliOptionMeta ::
  "string list option \<Rightarrow> TelemetryEventStore \<Rightarrow> error + TelemetryEventStore" where
  "trackCliOptionMeta meta store =
     (if truthy_array meta then
        (case array_length meta of
           Inl e \<Rightarrow> Inl e
         | Inr n \<Rightarrow>
             if n > 0 then Inr (trackCliOption ''meta'' redactedValue store)
             else Inr store)
      else Inr store)"

definition trackCliOptionPolicy ::
  "string list option \<Rightarrow> TelemetryEventStore \<Rightarrow> error + TelemetryEventStore" where
  "trackCliOptionPolicy policy store =
     (if truthy_array policy then
        (case array_length policy of
           Inl e \<Rightarrow> Inl e
         | Inr n \<Rightarrow>
             if n > 0 then Inr (trackCliOption ''policy'' redactedValue store)
             else Inr store)
      else Inr store)"

definition trackCliOptionEnvironment ::
  "string option \<Rightarrow> TelemetryEventStore \<Rightarrow> error + TelemetryEventStore" where
  "trackCliOptionEnvironment environment store =
     (case environment of
        None \<Rightarrow> Inr store
      | Some env \<Rightarrow>
          if truthy_string (Some env) then
            (let env' = (if env \<noteq> ''production'' \<and> env \<noteq> ''preview''
                         then redactedValue else env)
             in Inr (trackCliOption ''environment'' env' store))
          else Inr store)"

definition trackCliOptionNext ::
  "number option \<Rightarrow> TelemetryEventStore \<Rightarrow> error + TelemetryEventStore" where
  "trackCliOptionNext next store =
     (if truthy_number next then Inr (trackCliOption ''next'' redactedValue store)
      else Inr store)"

definition trackCliFlagProd ::
  "bool option \<Rightarrow> TelemetryEventStore \<Rightarrow> error + TelemetryEventStore" where
  "trackCliFlagProd flag store =
     (if truthy_boolean flag then Inr (trackCliFlag ''prod'' store) else Inr store)"

definition trackCliFlagYes ::
  "bool option \<Rightarrow> TelemetryEventStore \<Rightarrow> error + TelemetryEventStore" where
  "trackCliFlagYes flag store =
     (if truthy_boolean flag then Inr (trackCliFlag ''yes'' store) else Inr store)"

definition trackCliFlagConfirm ::
  "bool option \<Rightarrow> TelemetryEventStore \<Rightarrow> error + TelemetryEventStore" where
  "trackCliFlagConfirm flag store =
     (if truthy_boolean flag then Inr (trackCliFlag ''confirm'' store) else Inr store)"

definition trackCliArgumentApp ::
  "string option \<Rightarrow> TelemetryEventStore \<Rightarrow> error + TelemetryEventStore" where
  "trackCliArgumentApp app store =
     (if truthy_string app then Inr (trackCliArgument ''app'' redactedValue store)
      else Inr store)"

section \<open>The client object and its test double\<close>

text \<open>
  The fields of \<open>Client\<close> that \<open>MockClient\<close> and the command handlers read or assign.
  A stream keeps what \<open>MockStream\<close> declares (\<open>isTTY\<close>, the full output and the two
  chunk lists) and the two settings \<open>reset\<close> makes on it (the encoding, the pause);
  the replaced \<open>end\<close> method and \<open>_write\<close>, which fills the chunk lists, are not part
  of this development. The class \<open>Output\<close> is not among the
  sources: an output sink is the list of the texts printed through it.
\<close>

record Stream =
  isTTY :: bool
  columns :: "nat option"
  fullOutput :: string
  chunks :: "string list"
  rawChunks :: "string list"
  encoding :: "string option"
  paused :: bool

record Output =
  supportsHyperlink :: "bool option"
  printed :: "string list"

datatype Agent = Agent

record Client =
  apiUrl :: string
  argv :: "string list"
  authConfig :: "string \<rightharpoonup> string"
  config :: "string \<rightharpoonup> string"
  localConfig :: "string \<rightharpoonup> string"
  localConfigPath :: "string option"
  stdin :: Stream
  stdout :: Stream
  stderr :: Stream
  output' :: Output
  agent :: "Agent option"
  cwd :: string
  telemetryEventStore :: TelemetryEventStore

text \<open>
  \<open>MockClient extends Client\<close>: \<open>scenario\<close> is the router of the mock server (the routes
  registered on it; \<open>Router()\<close> has none), \<open>mockServer\<close> the port it listens on.
\<close>

record MockClient = Client +
  scenario :: "string list"
  mockServer :: "nat option"

definition new_MockStream :: Stream where
  "new_MockStream =
     \<lparr>isTTY = True, columns = None, fullOutput = [], chunks = [], rawChunks = [],
      encoding = None, paused = False\<rparr>"

text \<open>
  \<open>MockClient.reset\<close>, assignment by assignment. \<open>originalCwd\<close> is the module constant
  \<open>process.cwd()\<close> read when the module is loaded. The last statement resets the event
  store.
\<close>

definition MockClient_reset :: "string \<Rightarrow> MockClient \<Rightarrow> MockClient" where
  "MockClient_reset originalCwd this =
     (let this = this\<lparr>stdin := new_MockStream\<rparr>;
          this = this\<lparr>stdout := new_MockStream\<rparr>;
          this = this\<lparr>stdout := (stdout this)\<lparr>encoding := Some ''utf8''\<rparr>\<rparr>;
          this = this\<lparr>stdout := (stdout this)\<lparr>paused := True\<rparr>\<rparr>;
          this = this\<lparr>stderr := new_MockStream\<rparr>;
          this = this\<lparr>stderr := (stderr this)\<lparr>encoding := Some ''utf8''\<rparr>\<rparr>;
          this = this\<lparr>stderr := (stderr this)\<lparr>paused := True\<rparr>\<rparr>;
          this = this\<lparr>stderr := (stderr this)\<lparr>isTTY := True\<rparr>\<rparr>;
          this = this\<lparr>output' := \<lparr>supportsHyperlink = Some False, printed = []\<rparr>\<rparr>;
          this = this\<lparr>argv := []\<rparr>;
          this = this\<lparr>authConfig := [''token'' \<mapsto> ''token_dummy'']\<rparr>;
          this = this\<lparr>config := Map.empty\<rparr>;
          this = this\<lparr>localConfig := Map.empty\<rparr>;
          this = this\<lparr>localConfigPath := None\<rparr>;
          this = this\<lparr>scenario := []\<rparr>;
          this = this\<lparr>agent := None\<rparr>;
          this = this\<lparr>cwd := originalCwd\<rparr>
      in this\<lparr>telemetryEventStore := store_reset (telemetryEventStore this)\<rparr>)"

section \<open>Command handlers\<close>

text \<open>
  A handler is an \<open>async\<close> function of the client: it resolves with an exit code,
  rejects with what was thrown, or never settles. It returns that outcome together with
  the client as the call left it, so that what was recorded before a failure is kept.
\<close>

datatype outcome = Return int | Throw error | Pending

datatype flagval = FlagBool bool | FlagString string | FlagNumber number | FlagArray "string list"

type_synonym Flags = "string \<rightharpoonup> flagval"

record ParsedArgs =
  args :: "string list"
  flags :: Flags

fun truthy_flag :: "flagval option \<Rightarrow> bool" where
  "truthy_flag None = False"
| "truthy_flag (Some (FlagBool b)) = b"
| "truthy_flag (Some (FlagString s)) = (s \<noteq> [])"
| "truthy_flag (Some (FlagNumber n)) = truthy_number (Some n)"
| "truthy_flag (Some (FlagArray xs)) = True"

text \<open>\<open>xs[i]\<close>: \<open>undefined\<close> past the end.\<close>

definition at_index :: "'a list \<Rightarrow> nat \<Rightarrow> 'a option" where
  "at_index xs i = (if i < length xs then Some (xs ! i) else None)"

text \<open>\<open>a || b\<close> on strings: \<open>a\<close> when it is truthy, else \<open>b\<close>.\<close>

fun string_or :: "string option \<Rightarrow> string \<Rightarrow> string" where
  "string_or None b = b"
| "string_or (Some a) b = (if a \<noteq> [] then a else b)"

text \<open>
  Every method of the output sink (\<open>print\<close>, \<open>error\<close>, \<open>log\<close>, \<open>success\<close>,
  \<open>prettyError\<close>, \<open>debug\<close>) adds its text to the sink; the decoration each adds is not
  modelled.
\<close>

definition output_print :: "string \<Rightarrow> 'a Client_scheme \<Rightarrow> 'a Client_scheme" where
  "output_print s client =
     client\<lparr>output' := (output' client)\<lparr>printed := printed (output' client) @ [s]\<rparr>\<rparr>"

text \<open>
  Modelled from the spec: the constructors of the specialised clients are not among the
  sources. A specialised client is built from an output sink and a handle to the event
  store and is otherwise stateless: building one records nothing.
\<close>

definition new_TelemetryClient :: "'a Client_scheme \<Rightarrow> 'a Client_scheme" where
  "new_TelemetryClient client = client"

text \<open>
  A tracking call made by a handler on the store of its client; an exception of the
  tracker leaves the client as it was.
\<close>

definition track ::
  "(TelemetryEventStore \<Rightarrow> error + TelemetryEventStore) \<Rightarrow> 'a Client_scheme \<Rightarrow>
   error + 'a Client_scheme" where
  "track tracker client =
     (case tracker (telemetryEventStore client) of
        Inl e \<Rightarrow> Inl e
      | Inr store \<Rightarrow> Inr (client\<lparr>telemetryEventStore := store\<rparr>))"

text \<open>
  What the three \<open>main\<close> handlers import from modules that are not among the sources:
  \<open>parseArguments\<close> with the command's flags specification applied, the text
  \<open>handleError\<close> prints for an error, and the text of \<open>help(command, { columns })\<close>.
\<close>

record CommandImports =
  parseArguments :: "string list \<Rightarrow> error + ParsedArgs"
  handleError :: "error \<Rightarrow> string"
  helpText :: "nat option \<Rightarrow> string"

subsection \<open>pull\<close>

text \<open>
  The methods of \<open>PullTelemetryClient\<close>, which is not among the sources, are taken as
  they come; so are \<open>parseTarget\<close> (its result and the sink after its warnings) and
  \<open>pullCommandLogic\<close>.
\<close>

record PullTelemetryClient =
  pull_trackCliFlagYes :: "bool option \<Rightarrow> TelemetryEventStore \<Rightarrow> error + TelemetryEventStore"
  pull_trackCliFlagProd :: "bool option \<Rightarrow> TelemetryEventStore \<Rightarrow> error + TelemetryEventStore"
  pull_trackCliOptionGitBranch ::
    "flagval option \<Rightarrow> TelemetryEventStore \<Rightarrow> error + TelemetryEventStore"
  pull_trackCliOptionEnvironment ::
    "flagval option \<Rightarrow> TelemetryEventStore \<Rightarrow> error + TelemetryEventStore"

definition pull_main ::
  "CommandImports \<Rightarrow> (Output \<Rightarrow> Flags \<Rightarrow> string option \<times> Output) \<Rightarrow> PullTelemetryClient \<Rightarrow>
   (string \<Rightarrow> bool \<Rightarrow> string \<Rightarrow> Flags \<Rightarrow> 'a Client_scheme \<Rightarrow> outcome \<times> 'a Client_scheme) \<Rightarrow>
   'a Client_scheme \<Rightarrow> outcome \<times> 'a Client_scheme" where
  "pull_main imports parseTarget telemetryClient pullCommandLogic client =
     (case parseArguments imports (drop 2 (argv client)) of
        Inl err \<Rightarrow> (Return 1, output_print (handleError imports err) client)
      | Inr parsedArgs \<Rightarrow>
          if truthy_flag (flags parsedArgs ''--help'') then
            (Return 2, output_print (helpText imports (columns (stderr client))) client)
          else
            (let cwd1 = string_or (at_index (args parsedArgs) 1) (cwd client);
                 autoConfirm = truthy_flag (flags parsedArgs ''--yes'');
                 isProduction = truthy_flag (flags parsedArgs ''--prod'');
                 (target, out) = parseTarget (output' client) (flags parsedArgs);
                 client = client\<lparr>output' := out\<rparr>;
                 environment = string_or target ''development'';
                 client = new_TelemetryClient client
             in case track (pull_trackCliFlagYes telemetryClient (Some autoConfirm)) client of
                  Inl e \<Rightarrow> (Throw e, client)
                | Inr client \<Rightarrow>
               (case track (pull_trackCliFlagProd telemetryClient (Some isProduction)) client of
                  Inl e \<Rightarrow> (Throw e, client)
                | Inr client \<Rightarrow>
               (case track (pull_trackCliOptionGitBranch telemetryClient
                              (flags parsedArgs ''--git-branch'')) client of
                  Inl e \<Rightarrow> (Throw e, client)
                | Inr client \<Rightarrow>
               (case track (pull_trackCliOptionEnvironment telemetryClient
                              (flags parsedArgs ''--environment'')) client of
                  Inl e \<Rightarrow> (Throw e, client)
                | Inr client \<Rightarrow>
                    pullCommandLogic cwd1 autoConfirm environment (flags parsedArgs) client)))))"

subsection \<open>init\<close>

text \<open>
  Taken as they come: the methods of \<open>InitTelemetryClient\<close>, the arguments
  \<open>getSubcommand\<close> leaves, the command logic \<open>init\<close> (which is handed the telemetry
  client and tracks the example argument itself), and the texts of \<open>prettyError\<close> and
  of the stack of an error (\<open>None\<close> when it has none).
\<close>

record InitTelemetryClient =
  init_trackCliArgumentDir ::
    "string option \<Rightarrow> TelemetryEventStore \<Rightarrow> error + TelemetryEventStore"
  init_trackCliFlagForce ::
    "flagval option \<Rightarrow> TelemetryEventStore \<Rightarrow> error + TelemetryEventStore"

definition init_main ::
  "CommandImports \<Rightarrow> (string list \<Rightarrow> string list) \<Rightarrow> InitTelemetryClient \<Rightarrow>
   (Flags \<Rightarrow> string list \<Rightarrow> 'a Client_scheme \<Rightarrow> outcome \<times> 'a Client_scheme) \<Rightarrow>
   (error \<Rightarrow> string) \<Rightarrow> (error \<Rightarrow> string option) \<Rightarrow>
   'a Client_scheme \<Rightarrow> outcome \<times> 'a Client_scheme" where
  "init_main imports getSubcommand telemetry init prettyError stack client =
     (case parseArguments imports (drop 2 (argv client)) of
        Inl err \<Rightarrow> (Return 1, output_print (handleError imports err) client)
      | Inr parsedArgs \<Rightarrow>
          (let client = new_TelemetryClient client in
           if truthy_flag (flags parsedArgs ''--help'') then
             (Return 2, output_print (helpText imports (columns (stderr client))) client)
           else
             (let args1 = getSubcommand (drop 1 (args parsedArgs)) in
              if length (args parsedArgs) > 3 then
                (Return 1, output_print ''Too many arguments.'' client)
              else
                (case track (init_trackCliArgumentDir telemetry (at_index (args parsedArgs) 2))
                        client of
                   Inl e \<Rightarrow> (Throw e, client)
                 | Inr client \<Rightarrow>
                (case track (init_trackCliFlagForce telemetry (flags parsedArgs ''--force''))
                        client of
                   Inl e \<Rightarrow> (Throw e, client)
                 | Inr client \<Rightarrow>
                     (case init (flags parsedArgs) args1 client of
                        (Throw err, client) \<Rightarrow>
                          (let client = output_print (prettyError err) client;
                               client = (case stack err of
                                           Some st \<Rightarrow> output_print st client
                                         | None \<Rightarrow> client)
                           in (Return 1, client))
                      | r \<Rightarrow> r))))))"

subsection \<open>target\<close>

text \<open>
  Taken as they come: \<open>trackCliSubcommandList\<close> of \<open>TargetTelemetryClient\<close>, the
  subcommand \<open>list\<close>, and the text of \<open>getInvalidSubcommand(COMMAND_CONFIG)\<close>.
\<close>

definition target_main ::
  "CommandImports \<Rightarrow> (string \<Rightarrow> TelemetryEventStore \<Rightarrow> error + TelemetryEventStore) \<Rightarrow>
   (string list \<Rightarrow> 'a Client_scheme \<Rightarrow> outcome \<times> 'a Client_scheme) \<Rightarrow> string \<Rightarrow>
   'a Client_scheme \<Rightarrow> outcome \<times> 'a Client_scheme" where
  "target_main imports trackCliSubcommandList list invalidSubcommand client =
     (case parseArguments imports (drop 2 (argv client)) of
        Inl err \<Rightarrow> (Return 1, output_print (handleError imports err) client)
      | Inr parsedArgs \<Rightarrow>
          (let client = new_TelemetryClient client in
           if truthy_flag (flags parsedArgs ''--help'') then
             (Return 2, output_print (helpText imports (columns (stderr client))) client)
           else
             (let parsedArgs = parsedArgs\<lparr>args := drop 1 (args parsedArgs)\<rparr>;
                  subcommand = at_index (args parsedArgs) 0;
                  args1 = drop 1 (args parsedArgs);
                  invalid =
                    (let client = output_print invalidSubcommand client;
                         client = output_print (helpText imports (columns (stderr client))) client
                     in (Return 2, client))
              in case subcommand of
                   None \<Rightarrow> invalid
                 | Some sub \<Rightarrow>
                     if sub = ''ls'' \<or> sub = ''list'' then
                       (case track (trackCliSubcommandList sub) client of
                          Inl e \<Rightarrow> (Throw e, client)
                        | Inr client \<Rightarrow> list args1 client)
                     else invalid)))"

subsection \<open>dns rm\<close>

record DNSRecord =
  rec_id :: string
  rec_domain :: string
  rec_name :: string
  rec_type :: string
  rec_value :: string
  rec_mxPriority :: "nat option"
  rec_createdAt :: nat

text \<open>
  Modelled from the spec: \<open>DnsRmTelemetryClient\<close> is not among the sources. A record id
  is a free-form positional argument: the guard is that the value is truthy, the action
  one \<open>argument\<close> event with the placeholder. The key is the field the method is named
  after, as \<open>app\<close> is for \<open>trackCliArgumentApp\<close>.
\<close>

definition trackCliArgumentRecordId ::
  "string option \<Rightarrow> TelemetryEventStore \<Rightarrow> error + TelemetryEventStore" where
  "trackCliArgumentRecordId recordId store =
     (if truthy_string recordId then Inr (trackCliArgument ''recordId'' redactedValue store)
      else Inr store)"

text \<open>
  What \<open>rm\<close> calls outside the sources: the outcome of \<open>getScope\<close>, the lookup and the
  deletion of a record (requests to the remote API: each resolves or rejects), the answer
  read from standard input, already trimmed and in lower case (\<open>None\<close>: no input ever
  comes), and the texts built with \<open>chalk\<close>, \<open>table\<close>, \<open>stamp\<close> and \<open>getCommandName\<close>.
\<close>

record RmImports =
  getScope :: "error + unit"
  getDNSRecordById :: "string option \<Rightarrow> error + DNSRecord option"
  deleteDNSRecordById :: "string \<Rightarrow> string \<Rightarrow> error + unit"
  stdinAnswer :: "string option"
  usageText :: string
  tableText :: "string \<Rightarrow> DNSRecord \<Rightarrow> string"
  promptText :: string
  removedText :: "string \<Rightarrow> string"

text \<open>
  \<open>readConfirmation\<close>: three texts to the sink, then the promise that resolves on the
  first data of standard input with whether the answer is \<open>y\<close>.
\<close>

definition readConfirmation ::
  "RmImports \<Rightarrow> 'a Client_scheme \<Rightarrow> string \<Rightarrow> string \<Rightarrow> DNSRecord \<Rightarrow>
   bool option \<times> 'a Client_scheme" where
  "readConfirmation imports client msg domainName dnsRecord =
     (let client = output_print msg client;
          client = output_print (tableText imports domainName dnsRecord) client;
          client = output_print (promptText imports) client
      in (case stdinAnswer imports of
            None \<Rightarrow> (None, client)
          | Some d \<Rightarrow> (Some (d = ''y''), client)))"

text \<open>\<open>rm\<close>; its parameter \<open>args\<close> is \<open>args'\<close> here.\<close>

definition rm :: "RmImports \<Rightarrow> 'a Client_scheme \<Rightarrow> string list \<Rightarrow> outcome \<times> 'a Client_scheme" where
  "rm imports client args' =
     (let client = new_TelemetryClient client in
      case getScope imports of
        Inl e \<Rightarrow> (Throw e, client)
      | Inr _ \<Rightarrow>
          (let recordId = at_index args' 0 in
           if length args' \<noteq> 1 then
             (Return 1, output_print (usageText imports) client)
           else
             (case track (trackCliArgumentRecordId recordId) client of
                Inl e \<Rightarrow> (Throw e, client)
              | Inr client \<Rightarrow>
             (case getDNSRecordById imports recordId of
                Inl e \<Rightarrow> (Throw e, client)
              | Inr None \<Rightarrow> (Return 1, output_print ''DNS record not found'' client)
              | Inr (Some dnsRecord) \<Rightarrow>
                  (let domainName = rec_domain dnsRecord;
                       (yes, client) =
                          readConfirmation imports client
                            ''The following record will be removed permanently''
                            domainName dnsRecord
                   in case yes of
                        None \<Rightarrow> (Pending, client)
                      | Some False \<Rightarrow> (Return 0, output_print ''User canceled.'' client)
                      | Some True \<Rightarrow>
                          (case deleteDNSRecordById imports domainName (rec_id dnsRecord) of
                             Inl e \<Rightarrow> (Throw e, client)
                           | Inr _ \<Rightarrow>
                               (Return 0,
                                output_print (removedText imports (rec_id dnsRecord))
                                  client)))))))"

section \<open>Sample invocations\<close>

text \<open>
  A client with an empty event store whose arguments are those of \<open>vercel pull --help\<close>,
  an argument parser that reports \<open>--help\<close>, telemetry clients whose methods record an
  event at every call, and command logic that succeeds.
\<close>

definition sample_client :: Client where
  "sample_client =
     \<lparr>apiUrl = [], argv = [''node'', ''cli.js'', ''pull'', ''--help''],
      authConfig = Map.empty, config = Map.empty, localConfig = Map.empty,
      localConfigPath = None, stdin = new_MockStream, stdout = new_MockStream,
      stderr = new_MockStream, output' = \<lparr>supportsHyperlink = None, printed = []\<rparr>,
      agent = None, cwd = ''/home/project'', telemetryEventStore = []\<rparr>"

definition sample_imports :: CommandImports where
  "sample_imports =
     \<lparr>parseArguments =
        (\<lambda>argv1. Inr \<lparr>args = argv1, flags = [''--help'' \<mapsto> FlagBool True]\<rparr>),
      handleError = (\<lambda>err. ''Error''),
      helpText = (\<lambda>cols. ''Usage'')\<rparr>"

definition sample_pull_telemetry :: PullTelemetryClient where
  "sample_pull_telemetry =
     \<lparr>pull_trackCliFlagYes = (\<lambda>flag store. Inr (trackCliFlag ''yes'' store)),
      pull_trackCliFlagProd = (\<lambda>flag store. Inr (trackCliFlag ''prod'' store)),
      pull_trackCliOptionGitBranch =
        (\<lambda>v store. Inr (trackCliOption ''git-branch'' redactedValue store)),
      pull_trackCliOptionEnvironment =
        (\<lambda>v store. Inr (trackCliOption ''environment'' redactedValue store))\<rparr>"

definition sample_init_telemetry :: InitTelemetryClient where
  "sample_init_telemetry =
     \<lparr>init_trackCliArgumentDir =
        (\<lambda>v store. Inr (trackCliArgument ''dir'' redactedValue store)),
      init_trackCliFlagForce = (\<lambda>v store. Inr (trackCliFlag ''force'' store))\<rparr>"

text \<open>
  The collaborators of \<open>dns rm\<close> when the scope resolves and no record is found, and when
  the scope lookup is rejected.
\<close>

definition sample_rm_imports :: RmImports where
  "sample_rm_imports =
     \<lparr>getScope = Inr (),
      getDNSRecordById = (\<lambda>recordId. Inr None),
      deleteDNSRecordById = (\<lambda>domainName recordId. Inr ()),
      stdinAnswer = Some ''y'',
      usageText = ''Invalid number of arguments. Usage: vercel dns rm <id>'',
      tableText = (\<lambda>domainName dnsRecord. rec_id dnsRecord),
      promptText = ''> Are you sure? (y/N) '',
      removedText = (\<lambda>recordId. ''Record '' @ recordId @ '' removed'')\<rparr>"

definition sample_rm_imports_rejecting :: RmImports where
  "sample_rm_imports_rejecting = sample_rm_imports\<lparr>getScope := Inl (Error ''Not authorized'')\<rparr>"

section \<open>The trackers of the list command\<close>

lemmas primitives = trackCliOption_def trackCliFlag_def trackCliArgument_def store_record_def

lemmas list_trackers =
  trackCliOptionMeta_def trackCliOptionPolicy_def trackCliOptionEnvironment_def
  trackCliOptionNext_def trackCliFlagProd_def trackCliFlagYes_def trackCliFlagConfirm_def
  trackCliArgumentApp_def

text \<open>
  C1, as amended. Whenever a call of a sensitive-field tracker (\<open>meta\<close>, \<open>policy\<close>,
  \<open>next\<close>, \<open>app\<close>) records an event, that is, returns a store other than the one it was
  given, the store is the old one with one event at the end, and the value of that event
  is the placeholder. The value differs from the supplied string, and from every element
  of a supplied array, unless that string or element is itself the placeholder string.
\<close>

theorem sensitive_trackers_record_placeholder:
  "(trackCliOptionMeta meta store = Inr after_meta \<and> after_meta \<noteq> store \<longrightarrow>
      (\<exists>e. after_meta = store @ [e] \<and> ev_value e = Some redactedValue \<and>
           (\<forall>xs x. meta = Some xs \<and> x \<in> set xs \<and> x \<noteq> redactedValue \<longrightarrow>
                   ev_value e \<noteq> Some x))) \<and>
   (trackCliOptionPolicy policy store = Inr after_policy \<and> after_policy \<noteq> store \<longrightarrow>
      (\<exists>e. after_policy = store @ [e] \<and> ev_value e = Some redactedValue \<and>
           (\<forall>xs x. policy = Some xs \<and> x \<in> set xs \<and> x \<noteq> redactedValue \<longrightarrow>
                   ev_value e \<noteq> Some x))) \<and>
   (trackCliOptionNext num store = Inr after_next \<and> after_next \<noteq> store \<longrightarrow>
      (\<exists>e. after_next = store @ [e] \<and> ev_value e = Some redactedValue)) \<and>
   (trackCliArgumentApp app store = Inr after_app \<and> after_app \<noteq> store \<longrightarrow>
      (\<exists>e. after_app = store @ [e] \<and> ev_value e = Some redactedValue \<and>
           (app \<noteq> Some redactedValue \<longrightarrow> ev_value e \<noteq> app)))"
  by (cases meta; cases policy)
     (auto simp add: trackCliOptionMeta_def trackCliOptionPolicy_def trackCliOptionNext_def
      trackCliArgumentApp_def primitives split: if_splits)

theorem sensitive_trackers_record_placeholder_witness:
  "trackCliOptionMeta (Some [''a=1'']) [] =
     Inr [\<lparr>ev_kind = Option, ev_key = ''meta'', ev_value = Some ''[REDACTED]''\<rparr>] \<and>
   trackCliOptionPolicy (Some [''p1'', ''p2'']) [] =
     Inr [\<lparr>ev_kind = Option, ev_key = ''policy'', ev_value = Some ''[REDACTED]''\<rparr>] \<and>
   trackCliOptionNext (Some (Finite 5)) [] =
     Inr [\<lparr>ev_kind = Option, ev_key = ''next'', ev_value = Some ''[REDACTED]''\<rparr>] \<and>
   trackCliArgumentApp (Some ''my-app'') [] =
     Inr [\<lparr>ev_kind = Argument, ev_key = ''app'', ev_value = Some ''[REDACTED]''\<rparr>] \<and>
   (\<exists>e. [\<lparr>ev_kind = Option, ev_key = ''meta'', ev_value = Some ''[REDACTED]''\<rparr>] = [] @ [e] \<and>
        ev_value e = Some redactedValue \<and> ev_value e \<noteq> Some ''a=1'') \<and>
   (\<exists>e. [\<lparr>ev_kind = Option, ev_key = ''policy'', ev_value = Some ''[REDACTED]''\<rparr>] = [] @ [e] \<and>
        ev_value e = Some redactedValue \<and> ev_value e \<noteq> Some ''p1'' \<and> ev_value e \<noteq> Some ''p2'') \<and>
   (\<exists>e. [\<lparr>ev_kind = Option, ev_key = ''next'', ev_value = Some ''[REDACTED]''\<rparr>] = [] @ [e] \<and>
        ev_value e = Some redactedValue) \<and>
   (\<exists>e. [\<lparr>ev_kind = Argument, ev_key = ''app'', ev_value = Some ''[REDACTED]''\<rparr>] = [] @ [e] \<and>
        ev_value e = Some redactedValue \<and> ev_value e \<noteq> Some ''my-app'')"
proof -
  have m: "trackCliOptionMeta (Some [''a=1'']) [] =
     Inr [\<lparr>ev_kind = Option, ev_key = ''meta'', ev_value = Some ''[REDACTED]''\<rparr>]"
    by (simp add: trackCliOptionMeta_def primitives redactedValue_def)
  have p: "trackCliOptionPolicy (Some [''p1'', ''p2'']) [] =
     Inr [\<lparr>ev_kind = Option, ev_key = ''policy'', ev_value = Some ''[REDACTED]''\<rparr>]"
    by (simp add: trackCliOptionPolicy_def primitives redactedValue_def)
  have n: "trackCliOptionNext (Some (Finite 5)) [] =
     Inr [\<lparr>ev_kind = Option, ev_key = ''next'', ev_value = Some ''[REDACTED]''\<rparr>]"
    by (simp add: trackCliOptionNext_def primitives redactedValue_def)
  have a: "trackCliArgumentApp (Some ''my-app'') [] =
     Inr [\<lparr>ev_kind = Argument, ev_key = ''app'', ev_value = Some ''[REDACTED]''\<rparr>]"
    by (simp add: trackCliArgumentApp_def primitives redactedValue_def)
  show ?thesis
    using m p n a
      sensitive_trackers_record_placeholder [where meta = "Some [''a=1'']" and policy = "Some [''p1'', ''p2'']"
          and num = "Some (Finite 5)" and app = "Some ''my-app''" and store = "[]"
          and after_meta = "[\<lparr>ev_kind = Option, ev_key = ''meta'', ev_value = Some ''[REDACTED]''\<rparr>]"
          and after_policy = "[\<lparr>ev_kind = Option, ev_key = ''policy'', ev_value = Some ''[REDACTED]''\<rparr>]"
          and after_next = "[\<lparr>ev_kind = Option, ev_key = ''next'', ev_value = Some ''[REDACTED]''\<rparr>]"
          and after_app = "[\<lparr>ev_kind = Argument, ev_key = ''app'', ev_value = Some ''[REDACTED]''\<rparr>]"]
    by (auto simp add: redactedValue_def)
qed

text \<open>
  C1, as stated, fails when the user supplies the placeholder string itself: the event of
  \<open>trackCliArgumentApp\<close> then carries a value equal to the supplied string, and the event
  of \<open>trackCliOptionMeta\<close> one equal to the element of the supplied array.
\<close>

theorem sensitive_value_equals_input_counterexample:
  "truthy_string (Some ''[REDACTED]'') \<and>
   trackCliArgumentApp (Some ''[REDACTED]'') [] =
     Inr [\<lparr>ev_kind = Argument, ev_key = ''app'', ev_value = Some ''[REDACTED]''\<rparr>] \<and>
   trackCliOptionMeta (Some [''[REDACTED]'']) [] =
     Inr [\<lparr>ev_kind = Option, ev_key = ''meta'', ev_value = Some ''[REDACTED]''\<rparr>]"
  by (simp add: trackCliArgumentApp_def trackCliOptionMeta_def primitives redactedValue_def)

text \<open>
  C2. For every non-empty string given to \<open>trackCliOptionEnvironment\<close>: outside the
  allow-list, exactly one option event with key \<open>environment\<close> and the placeholder is
  recorded; for \<open>production\<close> and for \<open>preview\<close>, exactly one option event whose value is
  the input.
\<close>

theorem environment_allow_list:
  "(env \<noteq> [] \<and> env \<noteq> ''production'' \<and> env \<noteq> ''preview'' \<longrightarrow>
      trackCliOptionEnvironment (Some env) store =
        Inr (store @ [\<lparr>ev_kind = Option, ev_key = ''environment'',
                        ev_value = Some redactedValue\<rparr>])) \<and>
   (env = ''production'' \<or> env = ''preview'' \<longrightarrow>
      trackCliOptionEnvironment (Some env) store =
        Inr (store @ [\<lparr>ev_kind = Option, ev_key = ''environment'', ev_value = Some env\<rparr>]))"
  by (auto simp add: trackCliOptionEnvironment_def primitives)

theorem environment_allow_list_witness:
  "trackCliOptionEnvironment (Some ''staging'') [] =
     Inr [\<lparr>ev_kind = Option, ev_key = ''environment'', ev_value = Some ''[REDACTED]''\<rparr>] \<and>
   trackCliOptionEnvironment (Some ''production'') [] =
     Inr [\<lparr>ev_kind = Option, ev_key = ''environment'', ev_value = Some ''production''\<rparr>] \<and>
   trackCliOptionEnvironment (Some ''preview'') [] =
     Inr [\<lparr>ev_kind = Option, ev_key = ''environment'', ev_value = Some ''preview''\<rparr>]"
  using environment_allow_list [of "''staging''" "[]"]
        environment_allow_list [of "''production''" "[]"]
        environment_allow_list [of "''preview''" "[]"]
  by (simp add: redactedValue_def)

text \<open>
  C3. Each boolean flag tracker leaves the store as it is when called with \<open>undefined\<close>
  or \<open>false\<close>, and appends exactly one flag event with its fixed name (\<open>prod\<close>, \<open>yes\<close>,
  \<open>confirm\<close>) when called with \<open>true\<close>.
\<close>

theorem flag_trackers:
  "trackCliFlagProd None store = Inr store \<and>
   trackCliFlagProd (Some False) store = Inr store \<and>
   trackCliFlagProd (Some True) store =
     Inr (store @ [\<lparr>ev_kind = Flag, ev_key = ''prod'', ev_value = None\<rparr>]) \<and>
   trackCliFlagYes None store = Inr store \<and>
   trackCliFlagYes (Some False) store = Inr store \<and>
   trackCliFlagYes (Some True) store =
     Inr (store @ [\<lparr>ev_kind = Flag, ev_key = ''yes'', ev_value = None\<rparr>]) \<and>
   trackCliFlagConfirm None store = Inr store \<and>
   trackCliFlagConfirm (Some False) store = Inr store \<and>
   trackCliFlagConfirm (Some True) store =
     Inr (store @ [\<lparr>ev_kind = Flag, ev_key = ''confirm'', ev_value = None\<rparr>])"
  by (simp add: trackCliFlagProd_def trackCliFlagYes_def trackCliFlagConfirm_def primitives)

text \<open>
  C4. Each optional array, string or number tracker leaves the store as it is when
  called with \<open>undefined\<close> or with the empty value of its parameter type: the empty array
  for \<open>meta\<close> and \<open>policy\<close>, the empty string for \<open>environment\<close> and \<open>app\<close>, the number
  0 for \<open>next\<close>.
\<close>

theorem empty_inputs_record_nothing:
  "trackCliOptionMeta None store = Inr store \<and>
   trackCliOptionMeta (Some []) store = Inr store \<and>
   trackCliOptionPolicy None store = Inr store \<and>
   trackCliOptionPolicy (Some []) store = Inr store \<and>
   trackCliOptionEnvironment None store = Inr store \<and>
   trackCliOptionEnvironment (Some []) store = Inr store \<and>
   trackCliOptionNext None store = Inr store \<and>
   trackCliOptionNext (Some (Finite 0)) store = Inr store \<and>
   trackCliArgumentApp None store = Inr store \<and>
   trackCliArgumentApp (Some []) store = Inr store"
  by (simp add: trackCliOptionMeta_def trackCliOptionPolicy_def trackCliOptionEnvironment_def
      trackCliOptionNext_def trackCliArgumentApp_def)

text \<open>
  C5. Redaction is stable under repeated application. Given the placeholder (as the
  string, or as the element of the array), each tracker of a string or array field
  records the placeholder again; and whatever value \<open>trackCliOptionEnvironment\<close> records
  for an input, it records the same event when given that value.
\<close>

theorem redaction_idempotent:
  "trackCliOptionEnvironment (Some redactedValue) store =
     Inr (store @ [\<lparr>ev_kind = Option, ev_key = ''environment'',
                     ev_value = Some redactedValue\<rparr>]) \<and>
   trackCliArgumentApp (Some redactedValue) store =
     Inr (store @ [\<lparr>ev_kind = Argument, ev_key = ''app'', ev_value = Some redactedValue\<rparr>]) \<and>
   trackCliOptionMeta (Some [redactedValue]) store =
     Inr (store @ [\<lparr>ev_kind = Option, ev_key = ''meta'', ev_value = Some redactedValue\<rparr>]) \<and>
   trackCliOptionPolicy (Some [redactedValue]) store =
     Inr (store @ [\<lparr>ev_kind = Option, ev_key = ''policy'', ev_value = Some redactedValue\<rparr>]) \<and>
   (trackCliOptionEnvironment v store = Inr (store @ [e]) \<longrightarrow>
      trackCliOptionEnvironment (ev_value e) store = Inr (store @ [e]))"
  by (auto simp add: trackCliOptionEnvironment_def trackCliArgumentApp_def
      trackCliOptionMeta_def trackCliOptionPolicy_def primitives redactedValue_def Let_def
      split: if_splits option.splits)

theorem redaction_idempotent_witness:
  "trackCliOptionEnvironment (Some ''staging'') [] =
     Inr ([] @ [\<lparr>ev_kind = Option, ev_key = ''environment'', ev_value = Some ''[REDACTED]''\<rparr>]) \<and>
   trackCliOptionEnvironment (Some ''[REDACTED]'') [] =
     Inr ([] @ [\<lparr>ev_kind = Option, ev_key = ''environment'', ev_value = Some ''[REDACTED]''\<rparr>])"
proof -
  have first: "trackCliOptionEnvironment (Some ''staging'') [] =
     Inr ([] @ [\<lparr>ev_kind = Option, ev_key = ''environment'',
                  ev_value = Some ''[REDACTED]''\<rparr>])"
    by (simp add: trackCliOptionEnvironment_def primitives redactedValue_def)
  show ?thesis
    using first redaction_idempotent
          [of "[]" "Some ''staging''"
              "\<lparr>ev_kind = Option, ev_key = ''environment'', ev_value = Some ''[REDACTED]''\<rparr>"]
    by simp
qed

text \<open>
  C6. Every tracking method of the client appends at most one event: the store after
  the call is the store before it, or the store before it with one new event at the end.
\<close>

theorem trackers_append_at_most_one:
  "(\<exists>e. trackCliOptionMeta meta store = Inr store \<or>
        trackCliOptionMeta meta store = Inr (store @ [e])) \<and>
   (\<exists>e. trackCliOptionPolicy policy store = Inr store \<or>
        trackCliOptionPolicy policy store = Inr (store @ [e])) \<and>
   (\<exists>e. trackCliOptionEnvironment environment store = Inr store \<or>
        trackCliOptionEnvironment environment store = Inr (store @ [e])) \<and>
   (\<exists>e. trackCliOptionNext next store = Inr store \<or>
        trackCliOptionNext next store = Inr (store @ [e])) \<and>
   (\<exists>e. trackCliFlagProd flag1 store = Inr store \<or>
        trackCliFlagProd flag1 store = Inr (store @ [e])) \<and>
   (\<exists>e. trackCliFlagYes flag2 store = Inr store \<or>
        trackCliFlagYes flag2 store = Inr (store @ [e])) \<and>
   (\<exists>e. trackCliFlagConfirm flag3 store = Inr store \<or>
        trackCliFlagConfirm flag3 store = Inr (store @ [e])) \<and>
   (\<exists>e. trackCliArgumentApp app store = Inr store \<or>
        trackCliArgumentApp app store = Inr (store @ [e]))"
  by (cases meta; cases policy; cases environment)
     (simp_all add: list_trackers primitives Let_def)

text \<open>
  C8. Every tracking method of the client has a defined outcome on every input and that
  outcome is never an exception: the call returns a store. In particular \<open>length\<close> is
  never read of \<open>undefined\<close>.
\<close>

theorem trackers_never_throw:
  "(\<exists>store'. trackCliOptionMeta meta store = Inr store') \<and>
   (\<exists>store'. trackCliOptionPolicy policy store = Inr store') \<and>
   (\<exists>store'. trackCliOptionEnvironment environment store = Inr store') \<and>
   (\<exists>store'. trackCliOptionNext next store = Inr store') \<and>
   (\<exists>store'. trackCliFlagProd flag1 store = Inr store') \<and>
   (\<exists>store'. trackCliFlagYes flag2 store = Inr store') \<and>
   (\<exists>store'. trackCliFlagConfirm flag3 store = Inr store') \<and>
   (\<exists>store'. trackCliArgumentApp app store = Inr store')"
  by (cases meta; cases policy; cases environment)
     (simp_all add: list_trackers Let_def)

section \<open>Resetting the event store\<close>

text \<open>
  C7. Whatever the event store holds, \<open>reset()\<close> leaves it with no events, and so does
  \<open>MockClient.reset\<close>, whose last statement calls it; in particular a store in which
  five events were recorded holds none after the reset.
\<close>

theorem reset_clears_store:
  "store_reset store = [] \<and>
   telemetryEventStore (MockClient_reset originalCwd this) = [] \<and>
   length (store_record e5 (store_record e4 (store_record e3 (store_record e2
             (store_record e1 []))))) = 5 \<and>
   length (telemetryEventStore (MockClient_reset originalCwd
      (this\<lparr>telemetryEventStore :=
          store_record e5 (store_record e4 (store_record e3 (store_record e2
             (store_record e1 []))))\<rparr>))) = 0"
  by (simp add: MockClient_reset_def store_reset_def store_record_def Let_def)

section \<open>The handlers\<close>

lemma store_output_print:
  "telemetryEventStore (output_print s client) = telemetryEventStore client"
  by (simp add: output_print_def)

lemma store_readConfirmation:
  "telemetryEventStore (snd (readConfirmation imports client msg domainName dnsRecord)) =
   telemetryEventStore client"
  by (simp add: readConfirmation_def Let_def store_output_print split: option.splits)

text \<open>
  C9. When the arguments parse and the parsed flags hold a truthy \<open>--help\<close>, each of the
  handlers of \<open>pull\<close>, \<open>init\<close> and \<open>target\<close> returns exit code 2 and leaves the event
  store as it found it, whatever the telemetry client and the command logic would do.
\<close>

theorem help_returns_2_and_records_nothing:
  assumes "parseArguments imports (drop 2 (argv client)) = Inr parsedArgs"
    and "truthy_flag (flags parsedArgs ''--help'')"
  shows "fst (pull_main imports parseTarget telemetryClient pullCommandLogic client) = Return 2 \<and>
         telemetryEventStore
           (snd (pull_main imports parseTarget telemetryClient pullCommandLogic client)) =
           telemetryEventStore client \<and>
         fst (init_main imports getSubcommand telemetry init prettyError stack client) = Return 2 \<and>
         telemetryEventStore
           (snd (init_main imports getSubcommand telemetry init prettyError stack client)) =
           telemetryEventStore client \<and>
         fst (target_main imports trackCliSubcommandList list invalidSubcommand client) =
           Return 2 \<and>
         telemetryEventStore
           (snd (target_main imports trackCliSubcommandList list invalidSubcommand client)) =
           telemetryEventStore client"
  using assms
  by (simp add: pull_main_def init_main_def target_main_def new_TelemetryClient_def
      store_output_print)

theorem help_returns_2_and_records_nothing_witness:
  "parseArguments sample_imports (drop 2 (argv sample_client)) =
     Inr \<lparr>args = [''pull'', ''--help''], flags = [''--help'' \<mapsto> FlagBool True]\<rparr> \<and>
   truthy_flag (([''--help'' \<mapsto> FlagBool True]) ''--help'') \<and>
   fst (pull_main sample_imports (\<lambda>out fl. (None, out)) sample_pull_telemetry
          (\<lambda>cwd1 yes env fl c. (Return 0, c)) sample_client) = Return 2 \<and>
   telemetryEventStore
     (snd (pull_main sample_imports (\<lambda>out fl. (None, out)) sample_pull_telemetry
          (\<lambda>cwd1 yes env fl c. (Return 0, c)) sample_client)) = [] \<and>
   fst (init_main sample_imports (\<lambda>xs. xs) sample_init_telemetry (\<lambda>fl xs c. (Return 0, c))
          (\<lambda>err. ''Error'') (\<lambda>err. None) sample_client) = Return 2 \<and>
   telemetryEventStore
     (snd (init_main sample_imports (\<lambda>xs. xs) sample_init_telemetry (\<lambda>fl xs c. (Return 0, c))
          (\<lambda>err. ''Error'') (\<lambda>err. None) sample_client)) = [] \<and>
   fst (target_main sample_imports
          (\<lambda>sub store. Inr (store @ [\<lparr>ev_kind = Subcommand, ev_key = ''list'',
                                       ev_value = Some sub\<rparr>]))
          (\<lambda>xs c. (Return 0, c)) ''Invalid subcommand'' sample_client) = Return 2 \<and>
   telemetryEventStore
     (snd (target_main sample_imports
          (\<lambda>sub store. Inr (store @ [\<lparr>ev_kind = Subcommand, ev_key = ''list'',
                                       ev_value = Some sub\<rparr>]))
          (\<lambda>xs c. (Return 0, c)) ''Invalid subcommand'' sample_client)) = []"
proof -
  have p: "parseArguments sample_imports (drop 2 (argv sample_client)) =
     Inr \<lparr>args = [''pull'', ''--help''], flags = [''--help'' \<mapsto> FlagBool True]\<rparr>"
    by (simp add: sample_imports_def sample_client_def)
  have h: "truthy_flag
     (flags \<lparr>args = [''pull'', ''--help''], flags = [''--help'' \<mapsto> FlagBool True]\<rparr>
        ''--help'')"
    by simp
  have e: "telemetryEventStore sample_client = []"
    by (simp add: sample_client_def)
  show ?thesis
    using p h e help_returns_2_and_records_nothing [OF p h, of "\<lambda>out fl. (None, out)"
        sample_pull_telemetry "\<lambda>cwd1 yes env fl c. (Return 0, c)" "\<lambda>xs. xs"
        sample_init_telemetry "\<lambda>fl xs c. (Return 0, c)" "\<lambda>err. ''Error''" "\<lambda>err. None"
        "\<lambda>sub store. Inr (store @ [\<lparr>ev_kind = Subcommand, ev_key = ''list'',
                                     ev_value = Some sub\<rparr>])"
        "\<lambda>xs c. (Return 0, c)" "''Invalid subcommand''"]
    by simp
qed

text \<open>
  C10, as amended. Provided the scope lookup that opens the handler resolves: called with
  a number of arguments other than one, \<open>dns rm\<close> returns exit code 1 and leaves the event
  store as it found it; called with exactly one argument that is a non-empty string, it
  records exactly one record-id argument event, with the placeholder, before it looks the
  record up, so that the event is in the store whatever the lookup and the later steps
  do, also when the record is not found and the handler returns exit code 1.
\<close>

theorem rm_records_record_id_before_lookup:
  assumes "getScope imports = Inr u"
  shows "(length args' \<noteq> 1 \<longrightarrow>
            fst (rm imports client args') = Return 1 \<and>
            telemetryEventStore (snd (rm imports client args')) = telemetryEventStore client) \<and>
         (args' = [recordId] \<and> recordId \<noteq> [] \<longrightarrow>
            telemetryEventStore (snd (rm imports client args')) =
              telemetryEventStore client @
                [\<lparr>ev_kind = Argument, ev_key = ''recordId'', ev_value = Some redactedValue\<rparr>] \<and>
            (getDNSRecordById imports (Some recordId) = Inr None \<longrightarrow>
               fst (rm imports client args') = Return 1))"
proof (intro conjI impI)
  assume "length args' \<noteq> 1"
  then show "fst (rm imports client args') = Return 1"
    using assms by (simp add: rm_def new_TelemetryClient_def)
next
  assume "length args' \<noteq> 1"
  then show "telemetryEventStore (snd (rm imports client args')) = telemetryEventStore client"
    using assms by (simp add: rm_def new_TelemetryClient_def store_output_print)
next
  assume a: "args' = [recordId] \<and> recordId \<noteq> []"
  then have t: "track (trackCliArgumentRecordId (at_index args' 0)) client =
      Inr (client\<lparr>telemetryEventStore := telemetryEventStore client @
             [\<lparr>ev_kind = Argument, ev_key = ''recordId'', ev_value = Some redactedValue\<rparr>]\<rparr>)"
    by (simp add: track_def trackCliArgumentRecordId_def at_index_def primitives)
  show "telemetryEventStore (snd (rm imports client args')) =
          telemetryEventStore client @
            [\<lparr>ev_kind = Argument, ev_key = ''recordId'', ev_value = Some redactedValue\<rparr>]"
    using assms a t
    by (simp add: rm_def new_TelemetryClient_def Let_def store_output_print
        store_readConfirmation split_beta
        split: sum.splits option.splits bool.splits)
next
  assume a: "args' = [recordId] \<and> recordId \<noteq> []"
    and n: "getDNSRecordById imports (Some recordId) = Inr None"
  then have t: "track (trackCliArgumentRecordId (at_index args' 0)) client =
      Inr (client\<lparr>telemetryEventStore := telemetryEventStore client @
             [\<lparr>ev_kind = Argument, ev_key = ''recordId'', ev_value = Some redactedValue\<rparr>]\<rparr>)"
    by (simp add: track_def trackCliArgumentRecordId_def at_index_def primitives)
  have i: "at_index args' 0 = Some recordId"
    using a by (simp add: at_index_def)
  show "fst (rm imports client args') = Return 1"
    using assms a n t i
    by (simp add: rm_def new_TelemetryClient_def Let_def)
qed

theorem rm_records_record_id_before_lookup_witness:
  "getScope sample_rm_imports = Inr () \<and>
   fst (rm sample_rm_imports sample_client []) = Return 1 \<and>
   telemetryEventStore (snd (rm sample_rm_imports sample_client [])) = [] \<and>
   fst (rm sample_rm_imports sample_client [''rec_1'', ''rec_2'']) = Return 1 \<and>
   telemetryEventStore (snd (rm sample_rm_imports sample_client [''rec_1'', ''rec_2''])) = [] \<and>
   getDNSRecordById sample_rm_imports (Some ''rec_1'') = Inr None \<and>
   fst (rm sample_rm_imports sample_client [''rec_1'']) = Return 1 \<and>
   telemetryEventStore (snd (rm sample_rm_imports sample_client [''rec_1''])) =
     [\<lparr>ev_kind = Argument, ev_key = ''recordId'', ev_value = Some ''[REDACTED]''\<rparr>]"
proof -
  have s: "getScope sample_rm_imports = Inr ()"
    by (simp add: sample_rm_imports_def)
  have n: "getDNSRecordById sample_rm_imports (Some ''rec_1'') = Inr None"
    by (simp add: sample_rm_imports_def)
  have e: "telemetryEventStore sample_client = []"
    by (simp add: sample_client_def)
  show ?thesis
    using s n e
      rm_records_record_id_before_lookup [OF s, of "[]" sample_client "''rec_1''"]
      rm_records_record_id_before_lookup [OF s, of "[''rec_1'', ''rec_2'']" sample_client
        "''rec_1''"]
      rm_records_record_id_before_lookup [OF s, of "[''rec_1'']" sample_client "''rec_1''"]
    by (simp add: redactedValue_def)
qed

text \<open>
  C10, as stated, fails twice. Called with exactly one argument that is the empty string,
  the handler records no event: the tracker's guard finds the value falsy. And when the
  scope lookup is rejected the handler throws before it counts its arguments, so a call
  with no argument does not return exit code 1.
\<close>

theorem rm_one_empty_argument_counterexample:
  "length [''''] = 1 \<and>
   getScope sample_rm_imports = Inr () \<and>
   fst (rm sample_rm_imports sample_client ['''']) = Return 1 \<and>
   telemetryEventStore (snd (rm sample_rm_imports sample_client [''''])) = [] \<and>
   length ([] :: string list) \<noteq> 1 \<and>
   fst (rm sample_rm_imports_rejecting sample_client []) = Throw (Error ''Not authorized'')"
  by (simp add: rm_def sample_rm_imports_rejecting_def sample_rm_imports_def sample_client_def
      new_TelemetryClient_def track_def trackCliArgumentRecordId_def at_index_def
      output_print_def)

end
